theory Spec2Isabelle
  imports Complex_Main
begin

section \<open>The ledger engine of the budget planner (FinanceContext)\<close>

text \<open>
  The finance context keeps four pieces of React state: the transactions, the savings
  goals, the budgets and the round-up savings. Every mutator enqueues functional updates
  (\<open>setX(prev => ...)\<close>), which React applies in the order they were enqueued; the model
  applies them in that order to an explicit state record. The reads that a mutator makes
  from its closure (\<open>transactions.find\<close>) are taken from the state the call is applied to,
  that is, every call is made from a render that has seen all earlier calls.

  JavaScript numbers are modelled as real numbers (finite values, exact arithmetic); the
  one division of the module, whose divisor may be zero, returns a value of the type
  \<open>number\<close> below, which adds the two infinities and NaN. \<open>Date.now()\<close> and
  \<open>Math.random()\<close> are inputs of the operations that call them.
\<close>

subsection \<open>Data model\<close>

datatype TransactionType = income | expense

text \<open>\<open>Omit<Transaction, 'id'>\<close>; a \<open>Date\<close> is its time value in milliseconds.\<close>

record TransactionInput =
  amount :: real
  category :: string
  description :: string
  date :: int
  type :: TransactionType

record Transaction = TransactionInput +
  id_tx :: string

record SavingsGoalInput =
  name :: string
  target :: real
  current :: real
  deadline :: int

record SavingsGoal = SavingsGoalInput +
  id_sg :: string

record Budget =
  category_b :: string
  limit :: real
  spent :: real

record FinanceState =
  transactions :: "Transaction list"
  savings :: "SavingsGoal list"
  budgets :: "Budget list"
  roundUpSavings :: real

text \<open>The seeded state of \<open>FinanceProvider\<close>; \<open>new Date(y, m, d)\<close> is kept as the
  time value of that day at midnight UTC.\<close>

definition initialState :: FinanceState where
  "initialState =
    \<lparr>transactions =
       [\<lparr>amount = 2500, category = ''Food'', description = ''Grocery shopping'',
         date = 1705276800000, type = expense, id_tx = ''1''\<rparr>,
        \<lparr>amount = 5000, category = ''Salary'', description = ''Monthly salary'',
         date = 1704067200000, type = income, id_tx = ''2''\<rparr>,
        \<lparr>amount = 800, category = ''Transportation'', description = ''Uber rides'',
         date = 1704844800000, type = expense, id_tx = ''3''\<rparr>],
     savings =
       [\<lparr>name = ''Emergency Fund'', target = 50000, current = 15000,
         deadline = 1735603200000, id_sg = ''1''\<rparr>,
        \<lparr>name = ''Vacation'', target = 25000, current = 8500,
         deadline = 1719705600000, id_sg = ''2''\<rparr>],
     budgets =
       [\<lparr>category_b = ''Food'', limit = 5000, spent = 2500\<rparr>,
        \<lparr>category_b = ''Transportation'', limit = 2000, spent = 800\<rparr>,
        \<lparr>category_b = ''Entertainment'', limit = 3000, spent = 1200\<rparr>,
        \<lparr>category_b = ''Shopping'', limit = 4000, spent = 3500\<rparr>],
     roundUpSavings = 450\<rparr>"

subsection \<open>Identifiers: \<open>Date.now().toString()\<close>\<close>

definition digit_char :: "nat \<Rightarrow> char" where
  "digit_char d = ''0123456789'' ! d"

function digits :: "nat \<Rightarrow> string" where
  "digits n =
     (if n < 10 then [digit_char n] else digits (n div 10) @ [digit_char (n mod 10)])"
  by pat_completeness auto
termination
  by (relation "measure (\<lambda>n. n)") auto

declare digits.simps [simp del]

text \<open>The decimal rendering of an integer clock reading.\<close>

definition toString :: "int \<Rightarrow> string" where
  "toString i = (if i < 0 then CHR ''-'' # digits (nat (- i)) else digits (nat i))"

subsection \<open>Mutators\<close>

text \<open>
  The three callbacks that the mutators map over the budgets. The sum and the difference
  are those of real numbers; the program rounds each of them to a double.
\<close>

definition addSpent :: "string \<Rightarrow> real \<Rightarrow> Budget \<Rightarrow> Budget" where
  "addSpent c a budget =
     (if category_b budget = c then budget\<lparr>spent := spent budget + a\<rparr> else budget)"

definition removeSpent :: "string \<Rightarrow> real \<Rightarrow> Budget \<Rightarrow> Budget" where
  "removeSpent c a budget =
     (if category_b budget = c then budget\<lparr>spent := max 0 (spent budget - a)\<rparr>
      else budget)"

definition setLimit :: "string \<Rightarrow> real \<Rightarrow> Budget \<Rightarrow> Budget" where
  "setLimit c l budget = (if category_b budget = c then budget\<lparr>limit := l\<rparr> else budget)"

text \<open>\<open>{...transaction, id}\<close>\<close>

definition withId :: "TransactionInput \<Rightarrow> string \<Rightarrow> Transaction" where
  "withId t i =
     \<lparr>amount = amount t, category = category t, description = description t,
      date = date t, type = type t, id_tx = i\<rparr>"

definition addTransaction :: "int \<Rightarrow> TransactionInput \<Rightarrow> FinanceState \<Rightarrow> FinanceState" where
  "addTransaction now t s =
     (let newTransaction = withId t (toString now);
          s1 = s\<lparr>transactions := newTransaction # transactions s\<rparr>;
          s2 = (if type t = expense
                then (let roundUp = real_of_int \<lceil>amount t\<rceil> - amount t
                      in if roundUp > 0
                         then s1\<lparr>roundUpSavings := roundUpSavings s1 + roundUp\<rparr>
                         else s1)
                else s1)
      in if type t = expense
         then s2\<lparr>budgets := map (addSpent (category t) (amount t)) (budgets s2)\<rparr>
         else s2)"

definition addSavingsGoal :: "int \<Rightarrow> SavingsGoalInput \<Rightarrow> FinanceState \<Rightarrow> FinanceState" where
  "addSavingsGoal now g s =
     s\<lparr>savings := savings s @
        [\<lparr>name = name g, target = target g, current = current g, deadline = deadline g,
          id_sg = toString now\<rparr>]\<rparr>"

definition updateBudget :: "string \<Rightarrow> real \<Rightarrow> FinanceState \<Rightarrow> FinanceState" where
  "updateBudget c l s = s\<lparr>budgets := map (setLimit c l) (budgets s)\<rparr>"

definition editTransaction :: "string \<Rightarrow> TransactionInput \<Rightarrow> FinanceState \<Rightarrow> FinanceState" where
  "editTransaction i t s =
     (case find (\<lambda>x. id_tx x = i) (transactions s) of
        None \<Rightarrow> s
      | Some oldTransaction \<Rightarrow>
          (let s1 = s\<lparr>transactions :=
                        map (\<lambda>x. if id_tx x = i then withId t i else x) (transactions s)\<rparr>;
               s2 = (if type oldTransaction = expense
                     then s1\<lparr>budgets :=
                               map (removeSpent (category oldTransaction) (amount oldTransaction))
                                   (budgets s1)\<rparr>
                     else s1)
           in if type t = expense
              then s2\<lparr>budgets := map (addSpent (category t) (amount t)) (budgets s2)\<rparr>
              else s2))"

definition deleteTransaction :: "string \<Rightarrow> FinanceState \<Rightarrow> FinanceState" where
  "deleteTransaction i s =
     (case find (\<lambda>x. id_tx x = i) (transactions s) of
        None \<Rightarrow> s
      | Some transaction \<Rightarrow>
          (let s1 = s\<lparr>transactions := filter (\<lambda>x. id_tx x \<noteq> i) (transactions s)\<rparr>
           in if type transaction = expense
              then s1\<lparr>budgets :=
                        map (removeSpent (category transaction) (amount transaction))
                            (budgets s1)\<rparr>
              else s1))"

subsection \<open>Readers\<close>

text \<open>\<open>xs.filter(p).reduce((sum, t) => sum + t.amount, 0)\<close>\<close>

definition sumAmounts :: "(Transaction \<Rightarrow> bool) \<Rightarrow> Transaction list \<Rightarrow> real" where
  "sumAmounts p xs = foldl (\<lambda>sum t. sum + amount t) 0 (filter p xs)"

text \<open>An array read: an index outside the array gives \<open>undefined\<close>, here \<open>None\<close>.\<close>

definition at_index :: "'a list \<Rightarrow> int \<Rightarrow> 'a option" where
  "at_index xs i = (if 0 \<le> i \<and> i < int (length xs) then Some (xs ! nat i) else None)"

definition suggestions :: "string list" where
  "suggestions =
     [''Consider saving for a few more days before this purchase'',
      ''Try the 24-hour rule before buying non-essentials'',
      ''Look for alternatives or wait for a sale'',
      ''Focus on your savings goals first'',
      ''Skip one dining out to make room for this purchase'']"

record AffordResult =
  canAfford_r :: bool
  suggestion :: "string option"

text \<open>\<open>rnd\<close> is the value of \<open>Math.random()\<close>, a number in \<open>[0, 1)\<close>.\<close>

definition canAfford :: "real \<Rightarrow> real \<Rightarrow> FinanceState \<Rightarrow> AffordResult" where
  "canAfford amt rnd s =
     (let totalIncome = sumAmounts (\<lambda>t. type t = income) (transactions s);
          totalExpenses = sumAmounts (\<lambda>t. type t = expense) (transactions s);
          availableBalance = totalIncome - totalExpenses;
          canAfford = (availableBalance \<ge> amt)
      in \<lparr>canAfford_r = canAfford,
          suggestion =
            (if canAfford then Some ''You can afford this! Consider your other goals too.''
             else at_index suggestions \<lfloor>rnd * real (length suggestions)\<rfloor>)\<rparr>)"

text \<open>The result of a JavaScript division of two finite numbers (signed zeros apart).\<close>

datatype number = Finite real | PosInfinity | NegInfinity | NaN

definition js_div :: "real \<Rightarrow> real \<Rightarrow> number" where
  "js_div a b =
     (if b \<noteq> 0 then Finite (a / b)
      else if a > 0 then PosInfinity
      else if a < 0 then NegInfinity
      else NaN)"

text \<open>\<open>Math.min(x, 1)\<close> and \<open>x > 0.8\<close> on such a value.\<close>

fun min_one :: "number \<Rightarrow> number" where
  "min_one (Finite r) = Finite (min r 1)"
| "min_one PosInfinity = Finite 1"
| "min_one NegInfinity = NegInfinity"
| "min_one NaN = NaN"

fun above_08 :: "number \<Rightarrow> bool" where
  "above_08 (Finite r) = (r > 0.8)"
| "above_08 PosInfinity = True"
| "above_08 NegInfinity = False"
| "above_08 NaN = False"

definition messages :: "string list" where
  "messages =
     [''You've been spending a lot in this category lately. Sure about this?'',
      ''Remember your savings goals. Is this purchase aligned?'',
      ''You bought something similar recently. Still need it?'',
      ''This might push you over budget. Consider waiting?'',
      ''Great choice! This fits well within your budget.'']"

record RiskResult =
  risk :: number
  message :: "string option"

definition checkRegretRisk :: "real \<Rightarrow> string \<Rightarrow> real \<Rightarrow> FinanceState \<Rightarrow> RiskResult" where
  "checkRegretRisk amt c rnd s =
     (let categoryExpenses =
            sumAmounts (\<lambda>t. type t = expense \<and> category t = c) (transactions s);
          budget = find (\<lambda>b. category_b b = c) (budgets s);
          risk = (case budget of
                    Some b \<Rightarrow> js_div (categoryExpenses + amt) (limit b)
                  | None \<Rightarrow> Finite 0.5)
      in \<lparr>risk = min_one risk,
          message = (if above_08 risk then at_index messages \<lfloor>rnd * 4\<rfloor>
                     else at_index messages 4)\<rparr>)"

subsection \<open>Sequences of calls\<close>

datatype call =
    AddTransaction int TransactionInput
  | EditTransaction string TransactionInput
  | DeleteTransaction string
  | AddSavingsGoal int SavingsGoalInput
  | UpdateBudget string real

fun step :: "FinanceState \<Rightarrow> call \<Rightarrow> FinanceState" where
  "step s (AddTransaction now t) = addTransaction now t s"
| "step s (EditTransaction i t) = editTransaction i t s"
| "step s (DeleteTransaction i) = deleteTransaction i s"
| "step s (AddSavingsGoal now g) = addSavingsGoal now g s"
| "step s (UpdateBudget c l) = updateBudget c l s"

definition run :: "FinanceState \<Rightarrow> call list \<Rightarrow> FinanceState" where
  "run s cs = foldl step s cs"

subsection \<open>Quantities the properties are stated in\<close>

text \<open>
  Sums over the store written with \<open>sum_list\<close>, and membership of the unit interval for
  a value of type \<open>number\<close>. \<open>sumAmounts_sum_list\<close> below relates the sums to the
  \<open>reduce\<close> of the source.
\<close>

definition in_unit_interval :: "number \<Rightarrow> bool" where
  "in_unit_interval x = (case x of Finite r \<Rightarrow> 0 \<le> r \<and> r \<le> 1 | _ \<Rightarrow> False)"

definition incomeTotal :: "FinanceState \<Rightarrow> real" where
  "incomeTotal s = sum_list (map amount (filter (\<lambda>t. type t = income) (transactions s)))"

definition expenseTotal :: "FinanceState \<Rightarrow> real" where
  "expenseTotal s = sum_list (map amount (filter (\<lambda>t. type t = expense) (transactions s)))"

definition categoryExpenses :: "string \<Rightarrow> FinanceState \<Rightarrow> real" where
  "categoryExpenses c s =
     sum_list (map amount (filter (\<lambda>t. type t = expense \<and> category t = c) (transactions s)))"

text \<open>A call whose transaction input, when it is an expense, has a non-negative amount.\<close>

fun nonneg_call :: "call \<Rightarrow> bool" where
  "nonneg_call (AddTransaction now t) = (type t = income \<or> 0 \<le> amount t)"
| "nonneg_call (EditTransaction i t) = (type t = income \<or> 0 \<le> amount t)"
| "nonneg_call (DeleteTransaction i) = True"
| "nonneg_call (AddSavingsGoal now g) = True"
| "nonneg_call (UpdateBudget c l) = True"

definition spent_nonneg :: "FinanceState \<Rightarrow> bool" where
  "spent_nonneg s = list_all (\<lambda>b. 0 \<le> spent b) (budgets s)"

text \<open>A sequence of \<open>addTransaction\<close> calls, each with its clock reading.\<close>

definition addAll :: "FinanceState \<Rightarrow> (int \<times> TransactionInput) list \<Rightarrow> FinanceState" where
  "addAll s xs = run s (map (\<lambda>(now, t). AddTransaction now t) xs)"

text \<open>
  What a transaction (or a transaction input) counts towards the expenses of a category,
  and the sum of what the inputs of a sequence of \<open>addTransaction\<close> calls count.
\<close>

definition contrib :: "string \<Rightarrow> 'a TransactionInput_scheme \<Rightarrow> real" where
  "contrib c x = (if type x = expense \<and> category x = c then amount x else 0)"

definition added :: "string \<Rightarrow> (int \<times> TransactionInput) list \<Rightarrow> real" where
  "added c xs =
     sum_list (map amount (filter (\<lambda>t. type t = expense \<and> category t = c) (map snd xs)))"

text \<open>
  The budgets of category \<open>c\<close> are in step with the store, at the offset \<open>d\<close>: their
  spent is the sum of the expense amounts that the store has in that category, plus \<open>d\<close>.
  At offset 0 the spent is that sum.
\<close>

definition tracked :: "string \<Rightarrow> real \<Rightarrow> FinanceState \<Rightarrow> bool" where
  "tracked c d s =
     list_all (\<lambda>b. category_b b \<noteq> c \<or> spent b = categoryExpenses c s + d) (budgets s)"

text \<open>
  The conditions under which the budgets stay in step: identifiers in the store are
  pairwise different and no expense of the category has a negative amount; a call keeps
  this when the identifier it assigns is new and its input, if an expense of the
  category, has a non-negative amount.
\<close>

definition store_ok :: "string \<Rightarrow> FinanceState \<Rightarrow> bool" where
  "store_ok c s =
     (distinct (map id_tx (transactions s))
      \<and> list_all (\<lambda>x. 0 \<le> contrib c x) (transactions s))"

fun call_ok :: "string \<Rightarrow> FinanceState \<Rightarrow> call \<Rightarrow> bool" where
  "call_ok c s (AddTransaction now t) =
     (toString now \<notin> set (map id_tx (transactions s)) \<and> 0 \<le> contrib c t)"
| "call_ok c s (EditTransaction i t) = (0 \<le> contrib c t)"
| "call_ok c s (DeleteTransaction i) = True"
| "call_ok c s (AddSavingsGoal now g) = True"
| "call_ok c s (UpdateBudget c' l) = True"

fun calls_ok :: "string \<Rightarrow> FinanceState \<Rightarrow> call list \<Rightarrow> bool" where
  "calls_ok c s [] = True"
| "calls_ok c s (x # xs) = (call_ok c s x \<and> calls_ok c (step s x) xs)"

section \<open>Properties\<close>

subsection \<open>Sums\<close>

lemma foldl_amounts: "foldl (\<lambda>sum t. sum + amount t) a xs = a + sum_list (map amount xs)"
  by (induction xs arbitrary: a) simp_all

lemma sumAmounts_sum_list: "sumAmounts p xs = sum_list (map amount (filter p xs))"
  by (simp add: sumAmounts_def foldl_amounts)

subsection \<open>Round-up savings\<close>

lemma addTransaction_roundUp:
  "roundUpSavings (addTransaction now t s) =
     roundUpSavings s + (if type t = expense then real_of_int \<lceil>amount t\<rceil> - amount t else 0)"
proof (cases "real_of_int \<lceil>amount t\<rceil> - amount t > 0")
  case True
  then show ?thesis by (simp add: addTransaction_def Let_def)
next
  case False
  moreover have "0 \<le> real_of_int \<lceil>amount t\<rceil> - amount t" by simp
  ultimately have z: "real_of_int \<lceil>amount t\<rceil> - amount t = 0" by (rule_tac antisym) simp_all
  show ?thesis by (simp add: addTransaction_def Let_def z)
qed

lemma editTransaction_roundUp: "roundUpSavings (editTransaction i t s) = roundUpSavings s"
  by (simp add: editTransaction_def Let_def split: option.split)

lemma deleteTransaction_roundUp: "roundUpSavings (deleteTransaction i s) = roundUpSavings s"
  by (simp add: deleteTransaction_def Let_def split: option.split)

lemma step_roundUp:
  "roundUpSavings (step s c) =
     roundUpSavings s +
       (case c of
          AddTransaction now t \<Rightarrow>
            if type t = expense then real_of_int \<lceil>amount t\<rceil> - amount t else 0
        | _ \<Rightarrow> 0)"
  by (cases c)
     (simp_all add: addTransaction_roundUp editTransaction_roundUp deleteTransaction_roundUp
        addSavingsGoal_def updateBudget_def)

lemma step_roundUp_mono: "roundUpSavings s \<le> roundUpSavings (step s c)"
  by (subst step_roundUp) (simp split: call.split)

lemma run_roundUp_mono: "roundUpSavings s \<le> roundUpSavings (run s cs)"
proof (induction cs arbitrary: s)
  case Nil
  show ?case by (simp add: run_def)
next
  case (Cons c cs)
  have "roundUpSavings s \<le> roundUpSavings (step s c)" by (rule step_roundUp_mono)
  also have "\<dots> \<le> roundUpSavings (run (step s c) cs)" by (rule Cons.IH)
  finally show ?case by (simp add: run_def)
qed

text \<open>
  Claim C5 (round-up monotonicity). Over any sequence of calls the round-up accumulator
  never decreases. A single call changes it only when it is \<open>addTransaction\<close> of an
  expense, and then by \<open>ceil(amount) - amount\<close>, which is never negative;
  \<open>editTransaction\<close> and \<open>deleteTransaction\<close> leave it as it is.
\<close>

theorem roundUp_monotone:
  "roundUpSavings s \<le> roundUpSavings (run s cs)
   \<and> roundUpSavings (step s c) =
       roundUpSavings s +
         (case c of
            AddTransaction now t \<Rightarrow>
              if type t = expense then real_of_int \<lceil>amount t\<rceil> - amount t else 0
          | _ \<Rightarrow> 0)
   \<and> 0 \<le> real_of_int \<lceil>amount t\<rceil> - amount t
   \<and> roundUpSavings (editTransaction i t s) = roundUpSavings s
   \<and> roundUpSavings (deleteTransaction i s) = roundUpSavings s"
  using run_roundUp_mono[of s cs] step_roundUp[of s c]
  by (simp only: editTransaction_roundUp deleteTransaction_roundUp) simp

lemma find_None_ids: "i \<notin> id_tx ` set xs \<Longrightarrow> find (\<lambda>x. id_tx x = i) xs = None"
  by (induction xs) auto

text \<open>
  Claim C8 (an unknown identifier is a silent no-op). When no stored transaction has the
  identifier, \<open>deleteTransaction\<close> and \<open>editTransaction\<close> return the state they were
  given: transactions, budgets, savings goals and round-up savings are all unchanged. The
  operations have no error result.
\<close>

theorem notFound_noop:
  assumes "i \<notin> id_tx ` set (transactions s)"
  shows "deleteTransaction i s = s \<and> editTransaction i t s = s"
  using find_None_ids[OF assms]
  by (simp add: deleteTransaction_def editTransaction_def)

theorem notFound_noop_witness:
  "''99'' \<notin> id_tx ` set (transactions initialState)
   \<and> deleteTransaction ''99'' initialState = initialState
   \<and> editTransaction ''99''
        \<lparr>amount = 10, category = ''Food'', description = ''x'', date = 0, type = expense\<rparr>
        initialState = initialState"
proof -
  have h: "''99'' \<notin> id_tx ` set (transactions initialState)"
    by (simp add: initialState_def)
  from notFound_noop[OF h] h show ?thesis by blast
qed

subsection \<open>Budget limits\<close>

lemma setLimit_fields:
  "category_b (setLimit c l b) = category_b b"
  "spent (setLimit c l b) = spent b"
  "limit (setLimit c l b) = (if category_b b = c then l else limit b)"
  by (simp_all add: setLimit_def)

lemma map_setLimit_absent: "c \<notin> category_b ` set bs \<Longrightarrow> map (setLimit c l) bs = bs"
  by (induction bs) (auto simp add: setLimit_def)

text \<open>
  Claim C10 (\<open>updateBudget\<close> writes limits only). The call leaves the transactions, the
  savings goals and the round-up savings as they are and keeps the number and order of the
  budgets; every budget keeps its category and its spent, and its limit becomes the new
  limit exactly when its category is the one given. When no budget has that category the
  state is returned unchanged, so no budget is created.
\<close>

theorem updateBudget_frame:
  "transactions (updateBudget c l s) = transactions s
   \<and> savings (updateBudget c l s) = savings s
   \<and> roundUpSavings (updateBudget c l s) = roundUpSavings s
   \<and> length (budgets (updateBudget c l s)) = length (budgets s)
   \<and> (\<forall>k < length (budgets s).
         category_b (budgets (updateBudget c l s) ! k) = category_b (budgets s ! k)
         \<and> spent (budgets (updateBudget c l s) ! k) = spent (budgets s ! k)
         \<and> limit (budgets (updateBudget c l s) ! k) =
             (if category_b (budgets s ! k) = c then l else limit (budgets s ! k)))
   \<and> (c \<notin> category_b ` set (budgets s) \<longrightarrow> updateBudget c l s = s)"
  by (simp add: updateBudget_def setLimit_fields map_setLimit_absent)

theorem updateBudget_frame_witness:
  "limit (budgets (updateBudget ''Food'' 6000 initialState) ! 0) = 6000
   \<and> spent (budgets (updateBudget ''Food'' 6000 initialState) ! 0) = 2500
   \<and> limit (budgets (updateBudget ''Food'' 6000 initialState) ! 1) = 2000
   \<and> length (budgets (updateBudget ''Rent'' 100 initialState)) = 4
   \<and> updateBudget ''Rent'' 100 initialState = initialState"
  using updateBudget_frame[of "''Food''" 6000 initialState]
    updateBudget_frame[of "''Rent''" 100 initialState]
  by (simp add: initialState_def)

subsection \<open>Affordability\<close>

lemma at_index_random:
  assumes "0 \<le> rnd" and "rnd < 1" and "0 < n"
  shows "0 \<le> \<lfloor>rnd * real n\<rfloor> \<and> \<lfloor>rnd * real n\<rfloor> < int n"
proof
  from assms have "0 \<le> rnd * real n" by simp
  then show "0 \<le> \<lfloor>rnd * real n\<rfloor>" by simp
  from assms have "rnd * real n < real n" by simp
  then show "\<lfloor>rnd * real n\<rfloor> < int n" by (simp add: floor_less_iff)
qed

text \<open>
  Claim C7, amended (\<open>canAfford\<close>). The flag is whether the sum of the income amounts
  minus the sum of the expense amounts of the store is at least the amount asked for. When
  it is true the suggestion is the one affirming message; when it is false the suggestion
  is the entry of the catalog at index \<open>floor(random * 5)\<close>, and the catalog has five
  pairwise different messages.
\<close>

theorem canAfford_spec:
  assumes "0 \<le> rnd" and "rnd < 1"
  shows "canAfford_r (canAfford amt rnd s) = (incomeTotal s - expenseTotal s \<ge> amt)
   \<and> (canAfford_r (canAfford amt rnd s) \<longrightarrow>
        suggestion (canAfford amt rnd s) =
          Some ''You can afford this! Consider your other goals too.'')
   \<and> (\<not> canAfford_r (canAfford amt rnd s) \<longrightarrow>
        nat \<lfloor>rnd * 5\<rfloor> < 5
        \<and> suggestion (canAfford amt rnd s) = Some (suggestions ! nat \<lfloor>rnd * 5\<rfloor>)
        \<and> suggestions ! nat \<lfloor>rnd * 5\<rfloor> \<in> set suggestions)
   \<and> length suggestions = 5 \<and> distinct suggestions"
proof -
  have len: "length suggestions = 5" by (simp add: suggestions_def)
  have dist: "distinct suggestions" by (simp add: suggestions_def)
  from at_index_random[OF assms, of 5]
  have idx: "0 \<le> \<lfloor>rnd * 5\<rfloor>" "\<lfloor>rnd * 5\<rfloor> < 5" by simp_all
  then have n5: "nat \<lfloor>rnd * 5\<rfloor> < 5" by linarith
  then have mem: "suggestions ! nat \<lfloor>rnd * 5\<rfloor> \<in> set suggestions"
    by (simp add: len)
  have at: "at_index suggestions \<lfloor>rnd * 5\<rfloor> = Some (suggestions ! nat \<lfloor>rnd * 5\<rfloor>)"
    using idx by (simp add: at_index_def len)
  show ?thesis
    using n5 mem at dist
    by (simp add: canAfford_def Let_def sumAmounts_sum_list incomeTotal_def expenseTotal_def len)
qed

theorem canAfford_spec_witness:
  "(0::real) \<le> 9/10 \<and> (9/10::real) < 1
   \<and> \<not> canAfford_r (canAfford 2000 (9/10) initialState)
   \<and> canAfford_r (canAfford 1700 (9/10) initialState)
   \<and> suggestion (canAfford 1700 (9/10) initialState) =
        Some ''You can afford this! Consider your other goals too.''
   \<and> suggestion (canAfford 2000 (9/10) initialState) =
        Some ''Skip one dining out to make room for this purchase''"
  using canAfford_spec[of "9/10" 2000 initialState] canAfford_spec[of "9/10" 1700 initialState]
  by (simp add: initialState_def incomeTotal_def expenseTotal_def suggestions_def)

text \<open>
  The catalog is not one of four messages: in the seeded state, where 2000 cannot be
  afforded, five values of \<open>Math.random()\<close> give five different suggestions.
\<close>

theorem canAfford_four_messages_counterexample:
  "\<not> canAfford_r (canAfford 2000 0 initialState)
   \<and> distinct
       [suggestion (canAfford 2000 0 initialState),
        suggestion (canAfford 2000 (1/5) initialState),
        suggestion (canAfford 2000 (2/5) initialState),
        suggestion (canAfford 2000 (3/5) initialState),
        suggestion (canAfford 2000 (4/5) initialState)]"
  by (simp add: canAfford_def Let_def sumAmounts_def initialState_def suggestions_def
      at_index_def)

subsection \<open>Regret risk\<close>

lemma min_one_le: "min_one x = Finite r \<Longrightarrow> r \<le> 1"
  by (cases x) auto

lemma min_one_not_PosInfinity: "min_one x \<noteq> PosInfinity"
  by (cases x) auto

lemma risk_eq:
  "risk (checkRegretRisk amt c rnd s) =
     min_one (case find (\<lambda>b. category_b b = c) (budgets s) of
                Some b \<Rightarrow> js_div (categoryExpenses c s + amt) (limit b)
              | None \<Rightarrow> Finite 0.5)"
  by (simp add: checkRegretRisk_def Let_def sumAmounts_sum_list categoryExpenses_def
      split: option.split)

lemma in_unit_js_div:
  assumes "0 < l" and "0 \<le> a"
  shows "in_unit_interval (min_one (js_div a l))"
  using assms by (simp add: js_div_def in_unit_interval_def)

text \<open>
  Claim C6, amended (risk bound). When no budget has the category, the risk is the fixed
  midpoint 0.5. When the first budget of the category has a positive limit and the
  category's expenses plus the amount are not negative, the risk lies in \<open>[0, 1]\<close>,
  however large the amount. For every input the risk is cut at 1 from above: it is never
  a number above 1 and never \<open>+Infinity\<close>. Nothing cuts it at 0 from below.
\<close>

theorem risk_bound:
  "(find (\<lambda>b. category_b b = c) (budgets s) = None \<longrightarrow>
      risk (checkRegretRisk amt c rnd s) = Finite 0.5)
   \<and> (\<forall>b. find (\<lambda>b. category_b b = c) (budgets s) = Some b
            \<and> 0 < limit b \<and> 0 \<le> categoryExpenses c s + amt \<longrightarrow>
          in_unit_interval (risk (checkRegretRisk amt c rnd s)))
   \<and> (\<forall>r. risk (checkRegretRisk amt c rnd s) = Finite r \<longrightarrow> r \<le> 1)
   \<and> risk (checkRegretRisk amt c rnd s) \<noteq> PosInfinity"
proof (intro conjI allI impI)
  assume "find (\<lambda>b. category_b b = c) (budgets s) = None"
  then show "risk (checkRegretRisk amt c rnd s) = Finite 0.5"
    by (simp add: risk_eq)
next
  fix b
  assume "find (\<lambda>b. category_b b = c) (budgets s) = Some b
            \<and> 0 < limit b \<and> 0 \<le> categoryExpenses c s + amt"
  then show "in_unit_interval (risk (checkRegretRisk amt c rnd s))"
    by (simp add: risk_eq in_unit_js_div)
next
  fix r
  assume "risk (checkRegretRisk amt c rnd s) = Finite r"
  then show "r \<le> 1"
    unfolding risk_eq by (rule min_one_le)
next
  show "risk (checkRegretRisk amt c rnd s) \<noteq> PosInfinity"
    unfolding risk_eq by (rule min_one_not_PosInfinity)
qed

theorem risk_bound_witness:
  "risk (checkRegretRisk 10 ''Rent'' 0 initialState) = Finite 0.5
   \<and> in_unit_interval (risk (checkRegretRisk 2600 ''Food'' 0 initialState))
   \<and> risk (checkRegretRisk 2600 ''Food'' 0 initialState) = Finite 1
   \<and> in_unit_interval (risk (checkRegretRisk 1000000000000 ''Food'' 0 initialState))"
proof -
  have n: "find (\<lambda>b. category_b b = ''Rent'') (budgets initialState) = None"
    by (simp add: initialState_def)
  have f: "find (\<lambda>b. category_b b = ''Food'') (budgets initialState)
             = Some \<lparr>category_b = ''Food'', limit = 5000, spent = 2500\<rparr>"
    by (simp add: initialState_def)
  have ce: "categoryExpenses ''Food'' initialState = 2500"
    by (simp add: categoryExpenses_def initialState_def)
  have v: "risk (checkRegretRisk 2600 ''Food'' 0 initialState) = Finite 1"
    by (simp add: checkRegretRisk_def Let_def sumAmounts_def initialState_def js_div_def)
  from risk_bound[of "''Rent''" initialState 10 0] n
  have 1: "risk (checkRegretRisk 10 ''Rent'' 0 initialState) = Finite 0.5" by blast
  from risk_bound[of "''Food''" initialState 2600 0] f ce
  have 2: "in_unit_interval (risk (checkRegretRisk 2600 ''Food'' 0 initialState))" by simp
  from risk_bound[of "''Food''" initialState 1000000000000 0] f ce
  have 3: "in_unit_interval (risk (checkRegretRisk 1000000000000 ''Food'' 0 initialState))"
    by simp
  from 1 2 3 v show ?thesis by blast
qed

text \<open>
  In the seeded state a negative amount gives a negative risk:
  \<open>(2500 - 3000) / 5000 = -0.1\<close>.
\<close>

theorem risk_negative_counterexample:
  "risk (checkRegretRisk (-3000) ''Food'' 0 initialState) = Finite (- (1/10))
   \<and> \<not> in_unit_interval (risk (checkRegretRisk (-3000) ''Food'' 0 initialState))"
  by (simp add: checkRegretRisk_def Let_def sumAmounts_def initialState_def js_div_def
      in_unit_interval_def)

subsection \<open>What each mutator does to the budgets and the store\<close>

lemma addTransaction_budgets:
  "budgets (addTransaction now t s) =
     (if type t = expense then map (addSpent (category t) (amount t)) (budgets s)
      else budgets s)"
  by (simp add: addTransaction_def Let_def)

lemma addTransaction_transactions:
  "transactions (addTransaction now t s) = withId t (toString now) # transactions s"
  by (simp add: addTransaction_def Let_def)

lemma deleteTransaction_budgets:
  "budgets (deleteTransaction i s) =
     (case find (\<lambda>x. id_tx x = i) (transactions s) of
        None \<Rightarrow> budgets s
      | Some x \<Rightarrow>
          if type x = expense then map (removeSpent (category x) (amount x)) (budgets s)
          else budgets s)"
  by (simp add: deleteTransaction_def Let_def split: option.split)

lemma editTransaction_budgets:
  "budgets (editTransaction i t s) =
     (case find (\<lambda>x. id_tx x = i) (transactions s) of
        None \<Rightarrow> budgets s
      | Some x \<Rightarrow>
          (let bs = (if type x = expense
                     then map (removeSpent (category x) (amount x)) (budgets s)
                     else budgets s)
           in if type t = expense then map (addSpent (category t) (amount t)) bs else bs))"
  by (simp add: editTransaction_def Let_def split: option.split)

subsection \<open>Non-negative spent\<close>

lemma removeSpent_nonneg: "0 \<le> spent b \<Longrightarrow> 0 \<le> spent (removeSpent c a b)"
  by (simp add: removeSpent_def)

lemma addSpent_nonneg: "0 \<le> a \<Longrightarrow> 0 \<le> spent b \<Longrightarrow> 0 \<le> spent (addSpent c a b)"
  by (simp add: addSpent_def)

lemma setLimit_nonneg: "0 \<le> spent b \<Longrightarrow> 0 \<le> spent (setLimit c l b)"
  by (simp add: setLimit_def)

lemma list_all_removeSpent:
  "list_all (\<lambda>b. 0 \<le> spent b) bs \<Longrightarrow> list_all (\<lambda>b. 0 \<le> spent b) (map (removeSpent c a) bs)"
  by (induction bs) (simp_all add: removeSpent_nonneg)

lemma list_all_addSpent:
  "0 \<le> a \<Longrightarrow> list_all (\<lambda>b. 0 \<le> spent b) bs \<Longrightarrow>
     list_all (\<lambda>b. 0 \<le> spent b) (map (addSpent c a) bs)"
  by (induction bs) (simp_all add: addSpent_nonneg)

lemma list_all_setLimit:
  "list_all (\<lambda>b. 0 \<le> spent b) bs \<Longrightarrow> list_all (\<lambda>b. 0 \<le> spent b) (map (setLimit c l) bs)"
  by (induction bs) (simp_all add: setLimit_nonneg)

lemma step_spent_nonneg:
  assumes "spent_nonneg s" and "nonneg_call c"
  shows "spent_nonneg (step s c)"
proof (cases c)
  case (AddTransaction now t)
  with assms show ?thesis
    by (auto simp add: spent_nonneg_def addTransaction_budgets list_all_addSpent)
next
  case (EditTransaction i t)
  with assms show ?thesis
    by (auto simp add: spent_nonneg_def editTransaction_budgets Let_def list_all_addSpent
        list_all_removeSpent simp del: map_map split: option.split)
next
  case (DeleteTransaction i)
  with assms show ?thesis
    by (auto simp add: spent_nonneg_def deleteTransaction_budgets list_all_removeSpent
        split: option.split)
next
  case (AddSavingsGoal now g)
  with assms show ?thesis by (simp add: spent_nonneg_def addSavingsGoal_def)
next
  case (UpdateBudget c' l)
  with assms show ?thesis by (simp add: spent_nonneg_def updateBudget_def list_all_setLimit)
qed

text \<open>
  Claim C4, amended (non-negativity). If no budget has a negative spent and every
  transaction given to \<open>addTransaction\<close> or \<open>editTransaction\<close> is an income or has a
  non-negative amount, then after any sequence of calls, in any order and with any
  identifiers, no budget has a negative spent: reversals are cut at 0 and additions add
  non-negative amounts.
\<close>

theorem spent_never_negative:
  assumes "spent_nonneg s" and "list_all nonneg_call cs"
  shows "spent_nonneg (run s cs)"
  using assms
proof (induction cs arbitrary: s)
  case Nil
  then show ?case by (simp add: run_def)
next
  case (Cons c cs)
  from Cons.prems have "spent_nonneg (step s c)" by (simp add: step_spent_nonneg)
  moreover from Cons.prems have "list_all nonneg_call cs" by simp
  ultimately have "spent_nonneg (run (step s c) cs)" by (rule Cons.IH)
  then show ?case by (simp add: run_def)
qed

theorem spent_never_negative_witness:
  "spent_nonneg initialState
   \<and> map spent (budgets (run initialState
        [DeleteTransaction ''1'', DeleteTransaction ''1'',
         EditTransaction ''3''
           \<lparr>amount = 5000, category = ''Food'', description = ''x'', date = 0, type = income\<rparr>,
         AddTransaction 1700000000000
           \<lparr>amount = 40, category = ''Food'', description = ''y'', date = 0, type = expense\<rparr>,
         EditTransaction ''1700000000000''
           \<lparr>amount = 0, category = ''Shopping'', description = ''y'', date = 0, type = expense\<rparr>,
         DeleteTransaction ''2''])) = [0, 0, 1200, 3500]
   \<and> spent_nonneg (run initialState
        [DeleteTransaction ''1'', DeleteTransaction ''1'',
         EditTransaction ''3''
           \<lparr>amount = 5000, category = ''Food'', description = ''x'', date = 0, type = income\<rparr>,
         AddTransaction 1700000000000
           \<lparr>amount = 40, category = ''Food'', description = ''y'', date = 0, type = expense\<rparr>,
         EditTransaction ''1700000000000''
           \<lparr>amount = 0, category = ''Shopping'', description = ''y'', date = 0, type = expense\<rparr>,
         DeleteTransaction ''2''])"
proof -
  have h: "spent_nonneg initialState"
    by (simp add: spent_nonneg_def initialState_def)
  have v: "map spent (budgets (run initialState
        [DeleteTransaction ''1'', DeleteTransaction ''1'',
         EditTransaction ''3''
           \<lparr>amount = 5000, category = ''Food'', description = ''x'', date = 0, type = income\<rparr>,
         AddTransaction 1700000000000
           \<lparr>amount = 40, category = ''Food'', description = ''y'', date = 0, type = expense\<rparr>,
         EditTransaction ''1700000000000''
           \<lparr>amount = 0, category = ''Shopping'', description = ''y'', date = 0, type = expense\<rparr>,
         DeleteTransaction ''2''])) = [0, 0, 1200, 3500]"
    by (simp add: run_def initialState_def deleteTransaction_def editTransaction_def
        addTransaction_def Let_def removeSpent_def addSpent_def withId_def toString_def
        digits.simps digit_char_def)
  from h v spent_never_negative[OF h, of
        "[DeleteTransaction ''1'', DeleteTransaction ''1'',
         EditTransaction ''3''
           \<lparr>amount = 5000, category = ''Food'', description = ''x'', date = 0, type = income\<rparr>,
         AddTransaction 1700000000000
           \<lparr>amount = 40, category = ''Food'', description = ''y'', date = 0, type = expense\<rparr>,
         EditTransaction ''1700000000000''
           \<lparr>amount = 0, category = ''Shopping'', description = ''y'', date = 0, type = expense\<rparr>,
         DeleteTransaction ''2'']"]
  show ?thesis by simp
qed

text \<open>
  An expense with a negative amount, which \<open>addTransaction\<close> accepts, takes the spent of
  its budget below 0: in the seeded state Food goes from 2500 to -500.
\<close>

theorem spent_negative_counterexample:
  "spent_nonneg initialState
   \<and> map spent (budgets (run initialState
        [AddTransaction 1700000000000
           \<lparr>amount = - 3000, category = ''Food'', description = ''refund'', date = 0,
            type = expense\<rparr>])) = [- 500, 800, 1200, 3500]
   \<and> \<not> spent_nonneg (run initialState
        [AddTransaction 1700000000000
           \<lparr>amount = - 3000, category = ''Food'', description = ''refund'', date = 0,
            type = expense\<rparr>])"
  by (simp add: spent_nonneg_def run_def initialState_def addTransaction_def Let_def
      addSpent_def)

subsection \<open>Adding and then deleting a transaction\<close>

lemma find_added_first:
  "find (\<lambda>x. id_tx x = i) (withId t i # xs) = Some (withId t i)"
  by (simp add: withId_def)

lemma removeSpent_addSpent:
  "removeSpent c a (addSpent c a b) =
     (if category_b b = c then b\<lparr>spent := max 0 (spent b)\<rparr> else b)"
  by (simp add: removeSpent_def addSpent_def)

lemma map_clamp_id:
  "\<forall>b\<in>set bs. category_b b = c \<longrightarrow> 0 \<le> spent b \<Longrightarrow>
     map (\<lambda>b. if category_b b = c then b\<lparr>spent := max 0 (spent b)\<rparr> else b) bs = bs"
  by (induction bs) (simp_all add: max_def)

lemma add_delete_budgets:
  "budgets (deleteTransaction (toString now) (addTransaction now t s)) =
     (if type t = expense
      then map (\<lambda>b. if category_b b = category t then b\<lparr>spent := max 0 (spent b)\<rparr> else b)
             (budgets s)
      else budgets s)"
  by (simp add: deleteTransaction_budgets addTransaction_transactions find_added_first
      addTransaction_budgets withId_def removeSpent_addSpent comp_def)

text \<open>
  Claim C2, amended (reversibility). Numbers are exact reals here; of the program's
  doubles the equations hold within floating-point tolerance. \<open>addTransaction\<close> of an
  input \<open>t\<close> followed by \<open>deleteTransaction\<close> of the identifier just assigned
  \<^item> leaves all budgets, and with them the spent of the category of \<open>t\<close>, as they were
    when \<open>t\<close> is an income, whatever the spent was;
  \<^item> when \<open>t\<close> is an expense, leaves every budget of the category of \<open>t\<close> with the
    spent \<open>max(0, spent)\<close> and the other budgets as they were; so all budgets are as they
    were when no budget of that category had a negative spent before.

  This holds for any amount, and also when the identifier was already in the store.
\<close>

theorem add_then_delete_spent:
  "(type t = income \<longrightarrow>
      budgets (deleteTransaction (toString now) (addTransaction now t s)) = budgets s)
   \<and> (type t = expense \<longrightarrow>
      budgets (deleteTransaction (toString now) (addTransaction now t s)) =
        map (\<lambda>b. if category_b b = category t then b\<lparr>spent := max 0 (spent b)\<rparr> else b)
          (budgets s))
   \<and> ((\<forall>b\<in>set (budgets s). category_b b = category t \<longrightarrow> 0 \<le> spent b) \<longrightarrow>
      budgets (deleteTransaction (toString now) (addTransaction now t s)) = budgets s)"
  by (cases "type t") (simp_all add: add_delete_budgets map_clamp_id)

theorem add_then_delete_spent_witness:
  "map spent (budgets initialState) = [2500, 800, 1200, 3500]
   \<and> budgets (deleteTransaction (toString 1700000000000)
        (addTransaction 1700000000000
           \<lparr>amount = 99.5, category = ''Food'', description = ''lunch'', date = 0,
            type = expense\<rparr> initialState)) = budgets initialState
   \<and> map spent (budgets (deleteTransaction (toString 200)
        (addTransaction 200
           \<lparr>amount = 10, category = ''Food'', description = ''gift'', date = 0, type = income\<rparr>
           (addTransaction 100
              \<lparr>amount = - 3000, category = ''Food'', description = ''refund'', date = 0,
               type = expense\<rparr> initialState)))) = [- 500, 800, 1200, 3500]"
proof -
  have h: "\<forall>b\<in>set (budgets initialState).
      category_b b =
        category \<lparr>amount = 99.5, category = ''Food'', description = ''lunch'', date = 0,
                   type = expense\<rparr> \<longrightarrow> 0 \<le> spent b"
    by (simp add: initialState_def)
  have v: "map spent (budgets initialState) = [2500, 800, 1200, 3500]"
    by (simp add: initialState_def)
  have i: "type \<lparr>amount = 10, category = ''Food'', description = ''gift'', date = 0,
                 type = income\<rparr> = income"
    by simp
  have p: "map spent (budgets (addTransaction 100
              \<lparr>amount = - 3000, category = ''Food'', description = ''refund'', date = 0,
               type = expense\<rparr> initialState)) = [- 500, 800, 1200, 3500]"
    by (simp add: initialState_def addTransaction_def Let_def addSpent_def)
  from add_then_delete_spent[of
      "\<lparr>amount = 99.5, category = ''Food'', description = ''lunch'', date = 0,
        type = expense\<rparr>" 1700000000000 initialState] h
  have e1: "budgets (deleteTransaction (toString 1700000000000)
        (addTransaction 1700000000000
           \<lparr>amount = 99.5, category = ''Food'', description = ''lunch'', date = 0,
            type = expense\<rparr> initialState)) = budgets initialState"
    by (elim conjE) (erule mp, assumption)
  from add_then_delete_spent[of
      "\<lparr>amount = 10, category = ''Food'', description = ''gift'', date = 0, type = income\<rparr>"
      200
      "addTransaction 100
              \<lparr>amount = - 3000, category = ''Food'', description = ''refund'', date = 0,
               type = expense\<rparr> initialState"] i
  have e2: "budgets (deleteTransaction (toString 200)
        (addTransaction 200
           \<lparr>amount = 10, category = ''Food'', description = ''gift'', date = 0, type = income\<rparr>
           (addTransaction 100
              \<lparr>amount = - 3000, category = ''Food'', description = ''refund'', date = 0,
               type = expense\<rparr> initialState))) =
      budgets (addTransaction 100
              \<lparr>amount = - 3000, category = ''Food'', description = ''refund'', date = 0,
               type = expense\<rparr> initialState)"
    by (elim conjE) (erule mp, assumption)
  from v e1 e2 p show ?thesis by simp
qed

text \<open>
  From a state in which the spent of Food is negative (reached from the seeded state by
  adding an expense of -3000), adding an expense of 10 and deleting it again leaves the
  spent of Food at 0, not at the -500 it had.
\<close>

theorem add_then_delete_counterexample:
  "map spent (budgets (addTransaction 100
       \<lparr>amount = - 3000, category = ''Food'', description = ''refund'', date = 0,
        type = expense\<rparr> initialState)) = [- 500, 800, 1200, 3500]
   \<and> map spent (budgets (deleteTransaction (toString 200)
        (addTransaction 200
           \<lparr>amount = 10, category = ''Food'', description = ''tea'', date = 0, type = expense\<rparr>
           (addTransaction 100
              \<lparr>amount = - 3000, category = ''Food'', description = ''refund'', date = 0,
               type = expense\<rparr> initialState)))) = [0, 800, 1200, 3500]"
  by (simp add: initialState_def deleteTransaction_def addTransaction_def Let_def
      removeSpent_def addSpent_def withId_def toString_def digits.simps digit_char_def)

subsection \<open>Editing a transaction\<close>

lemma addSpent_fields:
  "category_b (addSpent c a b) = category_b b"
  "limit (addSpent c a b) = limit b"
  "spent (addSpent c a b) = spent b + (if category_b b = c then a else 0)"
  by (simp_all add: addSpent_def)

lemma removeSpent_fields:
  "category_b (removeSpent c a b) = category_b b"
  "limit (removeSpent c a b) = limit b"
  "spent (removeSpent c a b) = (if category_b b = c then max 0 (spent b - a) else spent b)"
  by (simp_all add: removeSpent_def)

lemma edit_expense_budgets:
  assumes "find (\<lambda>x. id_tx x = i) (transactions s) = Some old" and "type old = expense"
  shows "budgets (editTransaction i t s) =
     (if type t = expense
      then map (addSpent (category t) (amount t))
             (map (removeSpent (category old) (amount old)) (budgets s))
      else map (removeSpent (category old) (amount old)) (budgets s))"
  using assms by (simp add: editTransaction_budgets Let_def del: map_map)

text \<open>
  Claim C3, amended (edit reclassification). Editing a stored expense keeps the number,
  order, categories and limits of the budgets. The spent of a budget of the old category
  is lowered by the old amount, but not below 0, and the spent of a budget of the new
  category is then raised by the new amount when the new record is an expense; when the
  new record is an income nothing is added. So an edit from A/expense to B/expense moves
  the amount from A to B exactly when A's spent is at least the old amount.
\<close>

theorem edit_reclassification:
  assumes "find (\<lambda>x. id_tx x = i) (transactions s) = Some old" and "type old = expense"
  shows "length (budgets (editTransaction i t s)) = length (budgets s)
   \<and> (\<forall>k < length (budgets s).
         category_b (budgets (editTransaction i t s) ! k) = category_b (budgets s ! k)
         \<and> limit (budgets (editTransaction i t s) ! k) = limit (budgets s ! k)
         \<and> spent (budgets (editTransaction i t s) ! k) =
             (if category_b (budgets s ! k) = category old
              then max 0 (spent (budgets s ! k) - amount old)
              else spent (budgets s ! k))
             + (if type t = expense \<and> category_b (budgets s ! k) = category t
                then amount t else 0)
         \<and> (category_b (budgets s ! k) = category old \<and> amount old \<le> spent (budgets s ! k)
              \<and> (type t = income \<or> category t \<noteq> category old) \<longrightarrow>
              spent (budgets (editTransaction i t s) ! k) = spent (budgets s ! k) - amount old))"
  by (cases "type t")
     (simp_all add: edit_expense_budgets[OF assms] addSpent_fields removeSpent_fields)

theorem edit_reclassification_witness:
  "map spent (budgets initialState) = [2500, 800, 1200, 3500]
   \<and> spent (budgets (editTransaction ''1''
        \<lparr>amount = 2500, category = ''Transportation'', description = ''Grocery shopping'',
         date = 0, type = expense\<rparr> initialState) ! 0) = 0
   \<and> spent (budgets (editTransaction ''1''
        \<lparr>amount = 2500, category = ''Transportation'', description = ''Grocery shopping'',
         date = 0, type = expense\<rparr> initialState) ! 1) = 3300
   \<and> spent (budgets (editTransaction ''3''
        \<lparr>amount = 800, category = ''Transportation'', description = ''Uber rides'',
         date = 0, type = income\<rparr> initialState) ! 1) = 0"
proof -
  have f1: "find (\<lambda>x. id_tx x = ''1'') (transactions initialState) =
      Some \<lparr>amount = 2500, category = ''Food'', description = ''Grocery shopping'',
         date = 1705276800000, type = expense, id_tx = ''1''\<rparr>"
    by (simp add: initialState_def)
  have f3: "find (\<lambda>x. id_tx x = ''3'') (transactions initialState) =
      Some \<lparr>amount = 800, category = ''Transportation'', description = ''Uber rides'',
         date = 1704844800000, type = expense, id_tx = ''3''\<rparr>"
    by (simp add: initialState_def)
  have v: "map spent (budgets initialState) = [2500, 800, 1200, 3500]"
    and c: "map category_b (budgets initialState) =
              [''Food'', ''Transportation'', ''Entertainment'', ''Shopping'']"
    by (simp_all add: initialState_def)
  note a = edit_reclassification[OF f1, of
      "\<lparr>amount = 2500, category = ''Transportation'', description = ''Grocery shopping'',
        date = 0, type = expense\<rparr>"]
  note b = edit_reclassification[OF f3, of
      "\<lparr>amount = 800, category = ''Transportation'', description = ''Uber rides'',
         date = 0, type = income\<rparr>"]
  from a b v show ?thesis by (simp add: initialState_def)
qed

text \<open>
  In the state reached from the seeded one by adding an expense of -2500 on Food, the
  spent of Food is 0. Editing transaction 1 (Food, 2500, expense) to Transportation raises
  the spent of Transportation by 2500 and leaves the spent of Food at 0.
\<close>

theorem edit_reclassification_counterexample:
  "map id_tx (transactions (addTransaction 100
       \<lparr>amount = - 2500, category = ''Food'', description = ''refund'', date = 0,
        type = expense\<rparr> initialState)) = [''100'', ''1'', ''2'', ''3'']
   \<and> map spent (budgets (addTransaction 100
       \<lparr>amount = - 2500, category = ''Food'', description = ''refund'', date = 0,
        type = expense\<rparr> initialState)) = [0, 800, 1200, 3500]
   \<and> map spent (budgets (editTransaction ''1''
        \<lparr>amount = 2500, category = ''Transportation'', description = ''Grocery shopping'',
         date = 0, type = expense\<rparr>
        (addTransaction 100
           \<lparr>amount = - 2500, category = ''Food'', description = ''refund'', date = 0,
            type = expense\<rparr> initialState))) = [0, 3300, 1200, 3500]"
  by (simp add: initialState_def editTransaction_def addTransaction_def Let_def
      removeSpent_def addSpent_def withId_def toString_def digits.simps digit_char_def)

subsection \<open>Identifiers\<close>

lemma small_cases:
  "d < 10 \<Longrightarrow>
   d = 0 \<or> d = 1 \<or> d = 2 \<or> d = 3 \<or> d = 4 \<or> d = 5 \<or> d = 6 \<or> d = 7 \<or> d = 8 \<or> d = (9::nat)"
  by presburger

lemma digit_char_code:
  assumes "d < 10"
  shows "of_char (digit_char d) = 48 + d"
  using small_cases[OF assms] by (elim disjE; simp add: digit_char_def)

lemma digit_char_inj:
  assumes "a < 10" and "b < 10" and "digit_char a = digit_char b"
  shows "a = b"
proof -
  have "48 + a = (of_char (digit_char a) :: nat)"
    by (rule digit_char_code[OF assms(1), symmetric])
  also have "\<dots> = of_char (digit_char b)"
    by (simp only: assms(3))
  also have "\<dots> = 48 + b"
    by (rule digit_char_code[OF assms(2)])
  finally show ?thesis by simp
qed

lemma digit_char_not_minus:
  assumes "d < 10"
  shows "digit_char d \<noteq> CHR ''-''"
  using small_cases[OF assms] by (elim disjE; simp add: digit_char_def)

lemma digits_nonempty: "digits n \<noteq> []"
  by (subst digits.simps) simp

lemma digits_hd_not_minus: "hd (digits n) \<noteq> CHR ''-''"
proof (induction n rule: digits.induct)
  case (1 n)
  show ?case
  proof (cases "n < 10")
    case True
    then show ?thesis by (simp add: digits.simps[of n] digit_char_not_minus)
  next
    case False
    with "1.IH" digits_nonempty[of "n div 10"] show ?thesis
      by (simp add: digits.simps[of n])
  qed
qed

lemma digits_inj: "digits n = digits m \<Longrightarrow> n = m"
proof (induction n arbitrary: m rule: digits.induct)
  case (1 n)
  show ?case
  proof (cases "n < 10")
    case True
    show ?thesis
    proof (cases "m < 10")
      case True
      with \<open>n < 10\<close> "1.prems" show ?thesis
        by (simp add: digits.simps[of n] digits.simps[of m] digit_char_inj)
    next
      case False
      with \<open>n < 10\<close> "1.prems" digits_nonempty[of "m div 10"] show ?thesis
        by (simp add: digits.simps[of n] digits.simps[of m])
    qed
  next
    case False
    show ?thesis
    proof (cases "m < 10")
      case True
      with False "1.prems" digits_nonempty[of "n div 10"] show ?thesis
        by (simp add: digits.simps[of n] digits.simps[of m])
    next
      case mf: False
      from False mf "1.prems" have a: "digits (n div 10) = digits (m div 10)"
        and b: "digit_char (n mod 10) = digit_char (m mod 10)"
        by (simp_all add: digits.simps[of n] digits.simps[of m])
      from "1.IH"[OF False a] have "n div 10 = m div 10" .
      moreover from b have "n mod 10 = m mod 10" by (intro digit_char_inj) simp_all
      ultimately have "n div 10 * 10 + n mod 10 = m div 10 * 10 + m mod 10" by simp
      then show ?thesis by (simp only: div_mult_mod_eq)
    qed
  qed
qed

lemma minus_digits_neq: "CHR ''-'' # xs \<noteq> digits n"
proof
  assume "CHR ''-'' # xs = digits n"
  then have "hd (digits n) = CHR ''-''" by (metis list.sel(1))
  with digits_hd_not_minus[of n] show False by simp
qed

lemma toString_inj: "toString a = toString b \<Longrightarrow> a = b"
proof -
  assume e: "toString a = toString b"
  show "a = b"
  proof (cases "a < 0")
    case an: True
    show ?thesis
    proof (cases "b < 0")
      case True
      with an e have "digits (nat (- a)) = digits (nat (- b))" by (simp add: toString_def)
      then have "nat (- a) = nat (- b)" by (rule digits_inj)
      with an True show ?thesis by simp
    next
      case False
      with an e minus_digits_neq[of "digits (nat (- a))" "nat b"] show ?thesis
        by (simp add: toString_def)
    qed
  next
    case ap: False
    show ?thesis
    proof (cases "b < 0")
      case True
      with ap e minus_digits_neq[of "digits (nat (- b))" "nat a"] show ?thesis
        by (simp add: toString_def)
    next
      case False
      with ap e have "digits (nat a) = digits (nat b)" by (simp add: toString_def)
      then have "nat a = nat b" by (rule digits_inj)
      with ap False show ?thesis by simp
    qed
  qed
qed

lemma inj_toString: "inj toString"
  by (rule injI) (rule toString_inj)

lemma addAll_Cons: "addAll s ((now, t) # xs) = addAll (addTransaction now t s) xs"
  by (simp add: addAll_def run_def)

lemma addAll_ids:
  "map id_tx (transactions (addAll s xs)) =
     rev (map (\<lambda>(now, t). toString now) xs) @ map id_tx (transactions s)"
proof (induction xs arbitrary: s)
  case Nil
  show ?case by (simp add: addAll_def run_def)
next
  case (Cons x xs)
  obtain now t where x: "x = (now, t)" by (cases x)
  show ?case
    by (simp add: x addAll_Cons Cons.IH addTransaction_transactions withId_def)
qed

lemma clock_strings: "map (\<lambda>(now, t). toString now) xs = map toString (map fst xs)"
  by (induction xs) auto

text \<open>
  Claim C9, amended (identifiers). \<open>addTransaction\<close> prepends the new record, so the
  store lists the most recent first, and gives it the decimal string of the clock reading
  as identifier; different readings give different strings. The identifiers stay pairwise
  different over a sequence of \<open>addTransaction\<close> calls when they were so before, the
  clock readings of the calls are pairwise different and none of their strings is an
  identifier already in the store. Nothing in the operation compares the new identifier
  with the stored ones.
\<close>

theorem addTransaction_identifier:
  "transactions (addTransaction now t s) = withId t (toString now) # transactions s
   \<and> id_tx (withId t (toString now)) = toString now
   \<and> (toString now = toString now' \<longleftrightarrow> now = now')
   \<and> map id_tx (transactions (addAll s xs)) =
       rev (map (\<lambda>(now, t). toString now) xs) @ map id_tx (transactions s)
   \<and> (distinct (map id_tx (transactions s)) \<and> distinct (map fst xs)
        \<and> (\<forall>n \<in> fst ` set xs. toString n \<notin> id_tx ` set (transactions s)) \<longrightarrow>
      distinct (map id_tx (transactions (addAll s xs))))"
proof (intro conjI impI)
  show "transactions (addTransaction now t s) = withId t (toString now) # transactions s"
    by (rule addTransaction_transactions)
  show "id_tx (withId t (toString now)) = toString now"
    by (simp add: withId_def)
  show "toString now = toString now' \<longleftrightarrow> now = now'"
    using toString_inj by blast
  show "map id_tx (transactions (addAll s xs)) =
       rev (map (\<lambda>(now, t). toString now) xs) @ map id_tx (transactions s)"
    by (rule addAll_ids)
next
  assume h: "distinct (map id_tx (transactions s)) \<and> distinct (map fst xs)
        \<and> (\<forall>n \<in> fst ` set xs. toString n \<notin> id_tx ` set (transactions s))"
  then have "distinct (map toString (map fst xs))"
    by (simp only: distinct_map) (metis inj_toString subset_UNIV inj_on_subset)
  moreover from h have "set (map toString (map fst xs)) \<inter> set (map id_tx (transactions s)) = {}"
    by auto
  ultimately show "distinct (map id_tx (transactions (addAll s xs)))"
    using h by (simp only: addAll_ids clock_strings distinct_append distinct_rev set_rev)
qed

theorem addTransaction_identifier_witness:
  "distinct (map id_tx (transactions initialState))
   \<and> map id_tx (transactions (addAll initialState
        [(1700000000000,
          \<lparr>amount = 40, category = ''Food'', description = ''a'', date = 0, type = expense\<rparr>),
         (1700000000001,
          \<lparr>amount = 50, category = ''Food'', description = ''b'', date = 0, type = expense\<rparr>)]))
      = [''1700000000001'', ''1700000000000'', ''1'', ''2'', ''3'']
   \<and> distinct (map id_tx (transactions (addAll initialState
        [(1700000000000,
          \<lparr>amount = 40, category = ''Food'', description = ''a'', date = 0, type = expense\<rparr>),
         (1700000000001,
          \<lparr>amount = 50, category = ''Food'', description = ''b'', date = 0, type = expense\<rparr>)])))"
proof -
  have ids: "map id_tx (transactions initialState) = [''1'', ''2'', ''3'']"
    by (simp add: initialState_def)
  have s1: "toString 1700000000000 = ''1700000000000''"
    and s2: "toString 1700000000001 = ''1700000000001''"
    by (simp_all add: toString_def digits.simps digit_char_def)
  have h1: "distinct (map id_tx (transactions initialState))"
    by (simp add: ids)
  have h3: "\<forall>n \<in> fst ` set [(1700000000000,
          \<lparr>amount = 40, category = ''Food'', description = ''a'', date = 0, type = expense\<rparr>),
         (1700000000001,
          \<lparr>amount = 50, category = ''Food'', description = ''b'', date = 0, type = expense\<rparr>)].
        toString n \<notin> id_tx ` set (transactions initialState)"
    using ids by (simp add: s1 s2 flip: set_map)
  note w = addTransaction_identifier[of 1700000000000
     "\<lparr>amount = 40, category = ''Food'', description = ''a'', date = 0, type = expense\<rparr>"
     initialState 1700000000001
     "[(1700000000000,
          \<lparr>amount = 40, category = ''Food'', description = ''a'', date = 0, type = expense\<rparr>),
         (1700000000001,
          \<lparr>amount = 50, category = ''Food'', description = ''b'', date = 0, type = expense\<rparr>)]"]
  from w h1 h3 have d: "distinct (map id_tx (transactions (addAll initialState
        [(1700000000000,
          \<lparr>amount = 40, category = ''Food'', description = ''a'', date = 0, type = expense\<rparr>),
         (1700000000001,
          \<lparr>amount = 50, category = ''Food'', description = ''b'', date = 0, type = expense\<rparr>)])))"
    by (simp add: s1 s2)
  from w have l: "map id_tx (transactions (addAll initialState
        [(1700000000000,
          \<lparr>amount = 40, category = ''Food'', description = ''a'', date = 0, type = expense\<rparr>),
         (1700000000001,
          \<lparr>amount = 50, category = ''Food'', description = ''b'', date = 0, type = expense\<rparr>)]))
      = [''1700000000001'', ''1700000000000'', ''1'', ''2'', ''3'']"
    by (simp add: ids s1 s2)
  from h1 l d show ?thesis by blast
qed

text \<open>
  Two calls of \<open>addTransaction\<close> at the same clock reading, that is, within the same
  millisecond, give the second record the identifier of the first.
\<close>

theorem identifier_collision_counterexample:
  "map id_tx (transactions (addAll initialState
        [(1700000000000,
          \<lparr>amount = 40, category = ''Food'', description = ''a'', date = 0, type = expense\<rparr>),
         (1700000000000,
          \<lparr>amount = 50, category = ''Food'', description = ''b'', date = 0, type = expense\<rparr>)]))
      = [''1700000000000'', ''1700000000000'', ''1'', ''2'', ''3'']
   \<and> \<not> distinct (map id_tx (transactions (addAll initialState
        [(1700000000000,
          \<lparr>amount = 40, category = ''Food'', description = ''a'', date = 0, type = expense\<rparr>),
         (1700000000000,
          \<lparr>amount = 50, category = ''Food'', description = ''b'', date = 0, type = expense\<rparr>)])))"
  by (simp add: addAll_def run_def initialState_def addTransaction_def Let_def withId_def
      toString_def digits.simps digit_char_def)

subsection \<open>Spent and the expenses of the store\<close>

lemma sum_filter_contrib:
  "sum_list (map amount (filter (\<lambda>t. type t = expense \<and> category t = c) xs)) =
     sum_list (map (contrib c) xs)"
  by (induction xs) (simp_all add: contrib_def)

lemma categoryExpenses_contrib:
  "categoryExpenses c s = sum_list (map (contrib c) (transactions s))"
  by (simp add: categoryExpenses_def sum_filter_contrib)

lemma added_contrib: "added c xs = sum_list (map (contrib c) (map snd xs))"
  by (simp add: added_def sum_filter_contrib)

lemma contrib_withId: "contrib c (withId t i) = contrib c t"
  by (simp add: contrib_def withId_def)

lemma addSpent_contrib:
  "type t = expense \<Longrightarrow>
     addSpent (category t) (amount t) b = b\<lparr>spent := spent b + contrib (category_b b) t\<rparr>"
  by (simp add: addSpent_def contrib_def)

lemma addTransaction_budgets_contrib:
  "budgets (addTransaction now t s) =
     map (\<lambda>b. b\<lparr>spent := spent b + contrib (category_b b) t\<rparr>) (budgets s)"
proof (cases "type t")
  case income
  then have "map (\<lambda>b. b\<lparr>spent := spent b + contrib (category_b b) t\<rparr>) (budgets s) = budgets s"
    by (induction "budgets s") (simp_all add: contrib_def map_idI)
  with income show ?thesis by (simp add: addTransaction_budgets)
next
  case expense
  then show ?thesis by (simp add: addTransaction_budgets addSpent_contrib)
qed

lemma addTransaction_categoryExpenses:
  "categoryExpenses c (addTransaction now t s) = categoryExpenses c s + contrib c t"
  by (simp add: categoryExpenses_contrib addTransaction_transactions contrib_withId)

lemma addAll_budgets:
  "budgets (addAll s xs) =
     map (\<lambda>b. b\<lparr>spent := spent b + added (category_b b) xs\<rparr>) (budgets s)"
proof (induction xs arbitrary: s)
  case Nil
  show ?case by (simp add: addAll_def run_def added_def map_idI)
next
  case (Cons x xs)
  obtain now t where x: "x = (now, t)" by (cases x)
  show ?case
    by (simp add: x addAll_Cons Cons.IH addTransaction_budgets_contrib added_contrib
        comp_def add.assoc)
qed

lemma addAll_categoryExpenses:
  "categoryExpenses c (addAll s xs) = categoryExpenses c s + added c xs"
proof (induction xs arbitrary: s)
  case Nil
  show ?case by (simp add: addAll_def run_def added_def)
next
  case (Cons x xs)
  obtain now t where x: "x = (now, t)" by (cases x)
  show ?case
    by (simp add: x addAll_Cons Cons.IH addTransaction_categoryExpenses added_contrib)
qed

lemma tracked_iff:
  "tracked c d s \<longleftrightarrow>
     (\<forall>b\<in>set (budgets s). category_b b = c \<longrightarrow> spent b = categoryExpenses c s + d)"
  by (auto simp add: tracked_def list_all_iff)

lemma addAll_tracked: "tracked c d s \<Longrightarrow> tracked c d (addAll s xs)"
  by (auto simp add: tracked_iff addAll_budgets addAll_categoryExpenses)

lemma find_id_Some:
  "find (\<lambda>y. id_tx y = i) xs = Some x \<Longrightarrow> x \<in> set xs \<and> id_tx x = i"
  by (induction xs) (auto split: if_splits)

lemma filter_absent_id: "i \<notin> id_tx ` set xs \<Longrightarrow> filter (\<lambda>y. id_tx y \<noteq> i) xs = xs"
  by (induction xs) auto

lemma map_absent_id:
  "i \<notin> id_tx ` set xs \<Longrightarrow> map (\<lambda>y. if id_tx y = i then z else y) xs = xs"
  by (induction xs) auto

lemma find_None_absent: "find (\<lambda>y. id_tx y = i) xs = None \<Longrightarrow> i \<notin> id_tx ` set xs"
  by (induction xs) (auto split: if_splits)

lemma deleteTransaction_transactions:
  "transactions (deleteTransaction i s) = filter (\<lambda>y. id_tx y \<noteq> i) (transactions s)"
  by (auto simp add: deleteTransaction_def Let_def filter_absent_id
      dest: find_None_absent split: option.split)

lemma editTransaction_transactions:
  "transactions (editTransaction i t s) =
     map (\<lambda>y. if id_tx y = i then withId t i else y) (transactions s)"
  by (auto simp add: editTransaction_def Let_def map_absent_id
      dest: find_None_absent split: option.split)

lemma sum_without_id:
  fixes h :: "Transaction \<Rightarrow> real"
  assumes "distinct (map id_tx xs)" and "find (\<lambda>y. id_tx y = i) xs = Some x"
  shows "sum_list (map h (filter (\<lambda>y. id_tx y \<noteq> i) xs)) = sum_list (map h xs) - h x"
  using assms
proof (induction xs)
  case Nil
  then show ?case by simp
next
  case (Cons y ys)
  show ?case
  proof (cases "id_tx y = i")
    case True
    with Cons.prems have "x = y" and "i \<notin> id_tx ` set ys" by auto
    then show ?thesis using True by (simp add: filter_absent_id)
  next
    case False
    with Cons.prems have "distinct (map id_tx ys)" and "find (\<lambda>y. id_tx y = i) ys = Some x"
      by auto
    then have "sum_list (map h (filter (\<lambda>y. id_tx y \<noteq> i) ys)) = sum_list (map h ys) - h x"
      by (rule Cons.IH)
    with False show ?thesis by simp
  qed
qed

lemma sum_replaced_id:
  fixes h :: "Transaction \<Rightarrow> real"
  assumes "distinct (map id_tx xs)" and "find (\<lambda>y. id_tx y = i) xs = Some x"
  shows "sum_list (map h (map (\<lambda>y. if id_tx y = i then z else y) xs)) =
           sum_list (map h xs) - h x + h z"
  using assms
proof (induction xs)
  case Nil
  then show ?case by simp
next
  case (Cons y ys)
  show ?case
  proof (cases "id_tx y = i")
    case True
    with Cons.prems have "x = y" and "i \<notin> id_tx ` set ys" by auto
    then show ?thesis using True by (simp add: map_absent_id)
  next
    case False
    with Cons.prems have "distinct (map id_tx ys)" and "find (\<lambda>y. id_tx y = i) ys = Some x"
      by auto
    then have "sum_list (map h (map (\<lambda>y. if id_tx y = i then z else y) ys)) =
                 sum_list (map h ys) - h x + h z"
      by (rule Cons.IH)
    with False show ?thesis by simp
  qed
qed

lemma member_le_sum:
  fixes h :: "'a \<Rightarrow> real"
  assumes "x \<in> set xs" and "\<forall>y\<in>set xs. 0 \<le> h y"
  shows "h x \<le> sum_list (map h xs)"
  using assms
proof (induction xs)
  case Nil
  then show ?case by simp
next
  case (Cons y ys)
  from Cons.prems have "\<forall>v\<in>set (map h ys). 0 \<le> v" by simp
  then have nn: "0 \<le> sum_list (map h ys)" by (intro sum_list_nonneg) blast
  show ?case
  proof (cases "x = y")
    case True
    with nn show ?thesis by simp
  next
    case False
    with Cons.prems have "h x \<le> sum_list (map h ys)" by (intro Cons.IH) simp_all
    moreover from Cons.prems have "0 \<le> h y" by simp
    ultimately show ?thesis by simp
  qed
qed

lemma removeSpent_contrib:
  assumes "type x = expense" and "category_b b = c" and "contrib c x \<le> spent b"
  shows "spent (removeSpent (category x) (amount x) b) = spent b - contrib c x"
  using assms by (auto simp add: removeSpent_def contrib_def)

lemma addSpent_spent_contrib:
  assumes "type t = expense"
  shows "spent (addSpent (category t) (amount t) b) = spent b + contrib (category_b b) t"
  using assms by (simp add: addSpent_def contrib_def)

lemma contrib_income: "type x = income \<Longrightarrow> contrib c x = 0"
  by (simp add: contrib_def)

lemma store_ok_iff:
  "store_ok c s \<longleftrightarrow>
     distinct (map id_tx (transactions s)) \<and> (\<forall>x\<in>set (transactions s). 0 \<le> contrib c x)"
  by (simp add: store_ok_def list_all_iff)

lemma addTransaction_tracked:
  assumes "tracked c d s"
  shows "tracked c d (addTransaction now t s)"
  using assms
  by (auto simp add: tracked_iff addTransaction_budgets_contrib addTransaction_categoryExpenses)

lemma addTransaction_store_ok:
  assumes "store_ok c s" and "toString now \<notin> set (map id_tx (transactions s))"
    and "0 \<le> contrib c t"
  shows "store_ok c (addTransaction now t s)"
  using assms
  by (simp add: store_ok_iff addTransaction_transactions contrib_withId) (simp add: withId_def)

lemma deleteTransaction_store_ok:
  assumes "store_ok c s"
  shows "store_ok c (deleteTransaction i s)"
  using assms
  by (simp add: store_ok_iff deleteTransaction_transactions distinct_map_filter)

lemma edit_ids:
  "map id_tx (map (\<lambda>y. if id_tx y = i then withId t i else y) xs) = map id_tx xs"
  by (induction xs) (simp_all add: withId_def)

lemma editTransaction_store_ok:
  assumes "store_ok c s" and "0 \<le> contrib c t"
  shows "store_ok c (editTransaction i t s)"
  using assms
  by (auto simp add: store_ok_iff editTransaction_transactions edit_ids contrib_withId
      simp del: map_map)

lemma deleteTransaction_tracked:
  assumes ok: "store_ok c s" and tr: "tracked c d s" and d0: "0 \<le> d"
  shows "tracked c d (deleteTransaction i s)"
proof (cases "find (\<lambda>y. id_tx y = i) (transactions s)")
  case None
  with tr show ?thesis by (simp add: deleteTransaction_def)
next
  case (Some x)
  from ok have ids: "distinct (map id_tx (transactions s))"
    and nn: "\<forall>y\<in>set (transactions s). 0 \<le> contrib c y"
    by (simp_all add: store_ok_iff)
  from find_id_Some[OF Some] have xin: "x \<in> set (transactions s)" by (rule conjunct1)
  have ce: "categoryExpenses c (deleteTransaction i s) = categoryExpenses c s - contrib c x"
    by (simp add: categoryExpenses_contrib deleteTransaction_transactions
        sum_without_id[OF ids Some])
  have "contrib c x \<le> categoryExpenses c s"
    unfolding categoryExpenses_contrib by (rule member_le_sum[OF xin nn])
  with d0 have le: "contrib c x \<le> categoryExpenses c s + d" by simp
  show ?thesis
    unfolding tracked_iff
  proof (intro ballI impI)
    fix b'
    assume b': "b' \<in> set (budgets (deleteTransaction i s))" and cb': "category_b b' = c"
    show "spent b' = categoryExpenses c (deleteTransaction i s) + d"
    proof (cases "type x")
      case income
      with b' Some have "b' \<in> set (budgets s)" by (simp add: deleteTransaction_budgets)
      with tr cb' have "spent b' = categoryExpenses c s + d" by (simp add: tracked_iff)
      with income show ?thesis by (simp add: ce contrib_income)
    next
      case expense
      with b' Some obtain b where b: "b \<in> set (budgets s)"
        and e: "b' = removeSpent (category x) (amount x) b"
        by (auto simp add: deleteTransaction_budgets)
      from e cb' have cb: "category_b b = c" by (simp add: removeSpent_fields)
      with tr b have sp: "spent b = categoryExpenses c s + d" by (simp add: tracked_iff)
      with le have "contrib c x \<le> spent b" by simp
      from removeSpent_contrib[OF expense cb this] e sp show ?thesis by (simp add: ce)
    qed
  qed
qed

lemma editTransaction_tracked:
  assumes ok: "store_ok c s" and tr: "tracked c d s" and d0: "0 \<le> d"
  shows "tracked c d (editTransaction i t s)"
proof (cases "find (\<lambda>y. id_tx y = i) (transactions s)")
  case None
  with tr show ?thesis by (simp add: editTransaction_def)
next
  case (Some x)
  from ok have ids: "distinct (map id_tx (transactions s))"
    and nn: "\<forall>y\<in>set (transactions s). 0 \<le> contrib c y"
    by (simp_all add: store_ok_iff)
  from find_id_Some[OF Some] have xin: "x \<in> set (transactions s)" by (rule conjunct1)
  have ce: "categoryExpenses c (editTransaction i t s) =
              categoryExpenses c s - contrib c x + contrib c t"
    by (simp add: categoryExpenses_contrib editTransaction_transactions
        sum_replaced_id[OF ids Some] contrib_withId del: map_map)
  have "contrib c x \<le> categoryExpenses c s"
    unfolding categoryExpenses_contrib by (rule member_le_sum[OF xin nn])
  with d0 have le: "contrib c x \<le> categoryExpenses c s + d" by simp
  define bs1 where "bs1 = (if type x = expense
       then map (removeSpent (category x) (amount x)) (budgets s) else budgets s)"
  have bs: "budgets (editTransaction i t s) =
      (if type t = expense then map (addSpent (category t) (amount t)) bs1 else bs1)"
    by (simp add: editTransaction_budgets Some bs1_def Let_def del: map_map)
  have mid: "\<forall>b\<in>set bs1. category_b b = c \<longrightarrow>
               spent b = categoryExpenses c s - contrib c x + d"
  proof (intro ballI impI)
    fix b1
    assume b1: "b1 \<in> set bs1" and cb1: "category_b b1 = c"
    show "spent b1 = categoryExpenses c s - contrib c x + d"
    proof (cases "type x")
      case income
      with b1 have "b1 \<in> set (budgets s)" by (simp add: bs1_def)
      with tr cb1 have "spent b1 = categoryExpenses c s + d" by (simp add: tracked_iff)
      with income show ?thesis by (simp add: contrib_income)
    next
      case expense
      with b1 obtain b where b: "b \<in> set (budgets s)"
        and e: "b1 = removeSpent (category x) (amount x) b"
        by (auto simp add: bs1_def)
      from e cb1 have cb: "category_b b = c" by (simp add: removeSpent_fields)
      with tr b have sp: "spent b = categoryExpenses c s + d" by (simp add: tracked_iff)
      with le have "contrib c x \<le> spent b" by simp
      from removeSpent_contrib[OF expense cb this] e sp show ?thesis by simp
    qed
  qed
  show ?thesis
    unfolding tracked_iff
  proof (intro ballI impI)
    fix b'
    assume b': "b' \<in> set (budgets (editTransaction i t s))" and cb': "category_b b' = c"
    show "spent b' = categoryExpenses c (editTransaction i t s) + d"
    proof (cases "type t")
      case income
      with b' have "b' \<in> set bs1" by (simp add: bs)
      with mid cb' have "spent b' = categoryExpenses c s - contrib c x + d" by simp
      with income show ?thesis by (simp add: ce contrib_income)
    next
      case expense
      with b' obtain b1 where b1: "b1 \<in> set bs1"
        and e: "b' = addSpent (category t) (amount t) b1"
        by (auto simp add: bs)
      from e cb' have cb1: "category_b b1 = c" by (simp add: addSpent_fields)
      with mid b1 have "spent b1 = categoryExpenses c s - contrib c x + d" by simp
      with e cb1 show ?thesis by (simp add: ce addSpent_spent_contrib[OF expense])
    qed
  qed
qed

lemma step_keeps_tracked:
  assumes "store_ok c s" and "tracked c d s" and "0 \<le> d" and "call_ok c s x"
  shows "store_ok c (step s x) \<and> tracked c d (step s x)"
proof (cases x)
  case (AddTransaction now t)
  with assms show ?thesis by (simp add: addTransaction_store_ok addTransaction_tracked)
next
  case (EditTransaction i t)
  with assms show ?thesis by (simp add: editTransaction_store_ok editTransaction_tracked)
next
  case (DeleteTransaction i)
  with assms show ?thesis by (simp add: deleteTransaction_store_ok deleteTransaction_tracked)
next
  case (AddSavingsGoal now g)
  with assms show ?thesis
    by (simp add: addSavingsGoal_def store_ok_def tracked_def categoryExpenses_def)
next
  case (UpdateBudget c' l)
  with assms show ?thesis
    by (auto simp add: updateBudget_def store_ok_def tracked_iff categoryExpenses_def
        setLimit_fields)
qed

lemma run_keeps_tracked:
  assumes "store_ok c s" and "tracked c d s" and "0 \<le> d" and "calls_ok c s cs"
  shows "store_ok c (run s cs) \<and> tracked c d (run s cs)"
  using assms
proof (induction cs arbitrary: s)
  case Nil
  then show ?case by (simp add: run_def)
next
  case (Cons x cs)
  from Cons.prems have "store_ok c (step s x) \<and> tracked c d (step s x)"
    by (simp add: step_keeps_tracked)
  moreover from Cons.prems have "calls_ok c (step s x) cs" by simp
  ultimately have "store_ok c (run (step s x) cs) \<and> tracked c d (run (step s x) cs)"
    using \<open>0 \<le> d\<close> by (simp add: Cons.IH)
  then show ?case by (simp add: run_def)
qed

text \<open>
  Claim C1, amended (additivity of budget spend). Numbers are exact reals here; the
  program adds and subtracts doubles, so every equation below holds of the program up to
  the rounding of these additions and subtractions, and exactly where they are exact (for
  instance for whole-number amounts). A sequence of \<open>addTransaction\<close> calls raises the
  spent of every budget by the sum of the expense amounts that the calls add in the
  budget's category, and raises the sum of the stored expense amounts of a category by the
  same sum; so the offset \<open>d\<close> between the spent of the budgets of a category and the
  stored expenses of that category is kept by \<open>addTransaction\<close>. An offset that is not
  negative is kept by any sequence of calls of the five mutators as long as the
  identifiers in the store are pairwise different, every \<open>addTransaction\<close> assigns a new
  identifier and no expense of the category, stored or given, has a negative amount. The
  offset is a property of the state the sequence starts from, it is not established by
  the operations: in the seeded state it is 0 for Food and Transportation, 1200 for
  Entertainment and 3500 for Shopping.
\<close>

theorem spent_additivity:
  "budgets (addAll s xs) =
     map (\<lambda>b. b\<lparr>spent := spent b + added (category_b b) xs\<rparr>) (budgets s)
   \<and> categoryExpenses c (addAll s xs) = categoryExpenses c s + added c xs
   \<and> (tracked c d s \<longrightarrow> tracked c d (addAll s xs))
   \<and> (0 \<le> d \<and> store_ok c s \<and> tracked c d s \<and> calls_ok c s cs \<longrightarrow>
        tracked c d (run s cs))
   \<and> tracked ''Food'' 0 initialState \<and> tracked ''Transportation'' 0 initialState
   \<and> tracked ''Entertainment'' 1200 initialState \<and> tracked ''Shopping'' 3500 initialState"
proof -
  have seed: "tracked ''Food'' 0 initialState \<and> tracked ''Transportation'' 0 initialState
   \<and> tracked ''Entertainment'' 1200 initialState \<and> tracked ''Shopping'' 3500 initialState"
    by (simp add: tracked_def categoryExpenses_def initialState_def)
  have run: "0 \<le> d \<and> store_ok c s \<and> tracked c d s \<and> calls_ok c s cs \<longrightarrow>
        tracked c d (run s cs)"
    by (simp add: run_keeps_tracked)
  have adds: "tracked c d s \<longrightarrow> tracked c d (addAll s xs)"
    by (simp add: addAll_tracked)
  from seed run adds addAll_budgets[of s xs] addAll_categoryExpenses[of c s xs]
  show ?thesis by blast
qed

theorem spent_additivity_witness:
  "store_ok ''Food'' initialState \<and> store_ok ''Entertainment'' initialState
   \<and> map spent (budgets (addAll initialState
        [(1700000000000,
          \<lparr>amount = 2500, category = ''Food'', description = ''a'', date = 0,
           type = expense\<rparr>)])) = [5000, 800, 1200, 3500]
   \<and> tracked ''Food'' 0 (run initialState
        [AddTransaction 1700000000000
           \<lparr>amount = 99.5, category = ''Food'', description = ''b'', date = 0, type = expense\<rparr>,
         EditTransaction ''1''
           \<lparr>amount = 2500, category = ''Transportation'', description = ''c'', date = 0,
            type = expense\<rparr>,
         DeleteTransaction ''1700000000000''])
   \<and> tracked ''Entertainment'' 1200 (run initialState
        [AddTransaction 1700000000000
           \<lparr>amount = 100, category = ''Entertainment'', description = ''film'', date = 0,
            type = expense\<rparr>,
         EditTransaction ''3''
           \<lparr>amount = 300, category = ''Entertainment'', description = ''play'', date = 0,
            type = expense\<rparr>,
         DeleteTransaction ''1700000000000''])"
proof -
  have h1: "store_ok ''Food'' initialState" and h1': "store_ok ''Entertainment'' initialState"
    by (simp_all add: store_ok_def initialState_def contrib_def)
  have z: "(0::real) \<le> 0" and z': "(0::real) \<le> 1200"
    by simp_all
  have h3: "calls_ok ''Food'' initialState
        [AddTransaction 1700000000000
           \<lparr>amount = 99.5, category = ''Food'', description = ''b'', date = 0, type = expense\<rparr>,
         EditTransaction ''1''
           \<lparr>amount = 2500, category = ''Transportation'', description = ''c'', date = 0,
            type = expense\<rparr>,
         DeleteTransaction ''1700000000000'']"
    by (simp add: initialState_def contrib_def addTransaction_def Let_def withId_def
        toString_def digits.simps digit_char_def)
  have h3': "calls_ok ''Entertainment'' initialState
        [AddTransaction 1700000000000
           \<lparr>amount = 100, category = ''Entertainment'', description = ''film'', date = 0,
            type = expense\<rparr>,
         EditTransaction ''3''
           \<lparr>amount = 300, category = ''Entertainment'', description = ''play'', date = 0,
            type = expense\<rparr>,
         DeleteTransaction ''1700000000000'']"
    by (simp add: initialState_def contrib_def addTransaction_def Let_def withId_def
        toString_def digits.simps digit_char_def)
  have a: "added ''Food'' [(1700000000000,
          \<lparr>amount = 2500, category = ''Food'', description = ''a'', date = 0,
           type = expense\<rparr>)] = 2500"
    and b: "\<And>c. c \<noteq> ''Food'' \<Longrightarrow> added c [(1700000000000,
          \<lparr>amount = 2500, category = ''Food'', description = ''a'', date = 0,
           type = expense\<rparr>)] = 0"
    by (simp_all add: added_def)
  note w1 = spent_additivity[of initialState
      "[(1700000000000,
          \<lparr>amount = 2500, category = ''Food'', description = ''a'', date = 0,
           type = expense\<rparr>)]" "''Food''" 0
      "[AddTransaction 1700000000000
           \<lparr>amount = 99.5, category = ''Food'', description = ''b'', date = 0, type = expense\<rparr>,
         EditTransaction ''1''
           \<lparr>amount = 2500, category = ''Transportation'', description = ''c'', date = 0,
            type = expense\<rparr>,
         DeleteTransaction ''1700000000000'']"]
  note w2 = spent_additivity[of initialState "[]" "''Entertainment''" 1200
      "[AddTransaction 1700000000000
           \<lparr>amount = 100, category = ''Entertainment'', description = ''film'', date = 0,
            type = expense\<rparr>,
         EditTransaction ''3''
           \<lparr>amount = 300, category = ''Entertainment'', description = ''play'', date = 0,
            type = expense\<rparr>,
         DeleteTransaction ''1700000000000'']"]
  from w1 have v: "map spent (budgets (addAll initialState
        [(1700000000000,
          \<lparr>amount = 2500, category = ''Food'', description = ''a'', date = 0,
           type = expense\<rparr>)])) = [5000, 800, 1200, 3500]"
    by (simp add: a b initialState_def)
  from w1 h1 h3 z have t: "tracked ''Food'' 0 (run initialState
        [AddTransaction 1700000000000
           \<lparr>amount = 99.5, category = ''Food'', description = ''b'', date = 0, type = expense\<rparr>,
         EditTransaction ''1''
           \<lparr>amount = 2500, category = ''Transportation'', description = ''c'', date = 0,
            type = expense\<rparr>,
         DeleteTransaction ''1700000000000''])"
    by blast
  from w2 h1' h3' z' have t': "tracked ''Entertainment'' 1200 (run initialState
        [AddTransaction 1700000000000
           \<lparr>amount = 100, category = ''Entertainment'', description = ''film'', date = 0,
            type = expense\<rparr>,
         EditTransaction ''3''
           \<lparr>amount = 300, category = ''Entertainment'', description = ''play'', date = 0,
            type = expense\<rparr>,
         DeleteTransaction ''1700000000000''])"
    by blast
  from h1 h1' v t t' show ?thesis by blast
qed

text \<open>
  In the seeded state the Entertainment budget has spent 1200 and the store has no
  Entertainment expense, so the spent is not the sum of the stored expenses of the
  category; after adding one Entertainment expense of 100 the spent is 1300, while the
  expense amounts added, and stored, in the category sum to 100.
\<close>

theorem spent_additivity_counterexample:
  "category_b (budgets initialState ! 2) = ''Entertainment''
   \<and> spent (budgets initialState ! 2) = 1200
   \<and> categoryExpenses ''Entertainment'' initialState = 0
   \<and> \<not> tracked ''Entertainment'' 0 initialState
   \<and> spent (budgets (addAll initialState
        [(1700000000000,
          \<lparr>amount = 100, category = ''Entertainment'', description = ''film'', date = 0,
           type = expense\<rparr>)]) ! 2) = 1300
   \<and> categoryExpenses ''Entertainment'' (addAll initialState
        [(1700000000000,
          \<lparr>amount = 100, category = ''Entertainment'', description = ''film'', date = 0,
           type = expense\<rparr>)]) = 100"
  by (simp add: tracked_def categoryExpenses_def addAll_def run_def initialState_def
      addTransaction_def Let_def addSpent_def withId_def)

end
